theory Spec2Isabelle
  imports Complex_Main "HOL-Library.Sublist"
begin

section \<open>Values shared by the reader and its collaborators\<close>

text \<open>
  The front end is TypeScript. A \<open>string\<close> is a character list and
  \<open>string | undefined\<close> is \<open>string option\<close>. A \<open>number\<close> is a term of \<open>number\<close>:
  a finite value (a rational; the rounding of doubles is not modelled), an infinity or
  \<open>NaN\<close>. The page numbers of the reader are such numbers, because the rendered
  content reports them and nothing checks them. The index into the spine is an \<open>int\<close>:
  it is only ever \<open>0\<close>, an index returned by the back end, or one of these plus or
  minus one. Values that cross \<open>JSON.stringify\<close> / \<open>JSON.parse\<close> are terms of
  \<open>json\<close>; an object keeps its fields in insertion order.
\<close>

datatype number = Finite rat | PosInf | NegInf | NaN

text \<open>\<open>a - b\<close>, \<open>a >= b\<close> and \<open>a < b\<close> on numbers; a comparison with \<open>NaN\<close> is false.\<close>

fun js_minus :: "number \<Rightarrow> number \<Rightarrow> number" where
  "js_minus NaN b = NaN"
| "js_minus a NaN = NaN"
| "js_minus (Finite a) (Finite b) = Finite (a - b)"
| "js_minus (Finite a) PosInf = NegInf"
| "js_minus (Finite a) NegInf = PosInf"
| "js_minus PosInf PosInf = NaN"
| "js_minus PosInf b = PosInf"
| "js_minus NegInf NegInf = NaN"
| "js_minus NegInf b = NegInf"

fun js_ge :: "number \<Rightarrow> number \<Rightarrow> bool" where
  "js_ge NaN b = False"
| "js_ge a NaN = False"
| "js_ge (Finite a) (Finite b) = (a \<ge> b)"
| "js_ge PosInf b = True"
| "js_ge a NegInf = True"
| "js_ge a b = False"

fun js_lt :: "number \<Rightarrow> number \<Rightarrow> bool" where
  "js_lt NaN b = False"
| "js_lt a NaN = False"
| "js_lt (Finite a) (Finite b) = (a < b)"
| "js_lt PosInf b = False"
| "js_lt a NegInf = False"
| "js_lt a b = True"

datatype json =
    JNull
  | JBool bool
  | JNumber number
  | JString string
  | JArray "json list"
  | JObject "(string \<times> json) list"

text \<open>\<open>src/types/book.ts\<close>: the two interfaces.\<close>

datatype TocItem =
  TocItem (label: string) (content: string) (play_order: int) (children: "TocItem list")

record ReadingPosition =
  bookKey :: string
  contentPath :: string
  page :: number
  timestamp :: int

text \<open>
  The object literal handed to \<open>JSON.stringify\<close>: four fields, in the order written.
  \<open>timestamp\<close> is the integer that \<open>Date.now()\<close> returns.
\<close>

definition position_json :: "ReadingPosition \<Rightarrow> json" where
  "position_json p =
     JObject [(''bookKey'', JString (bookKey p)),
              (''contentPath'', JString (contentPath p)),
              (''page'', JNumber (page p)),
              (''timestamp'', JNumber (Finite (of_int (timestamp p))))]"

subsection \<open>JavaScript primitives used by the component\<close>

text \<open>\<open>!x\<close> on \<open>string | undefined\<close>: undefined and the empty string are falsy.\<close>

definition falsy :: "string option \<Rightarrow> bool" where
  "falsy v = (case v of None \<Rightarrow> True | Some s \<Rightarrow> s = [])"

text \<open>Interpolation of \<open>string | undefined\<close> into a template literal.\<close>

definition str_of :: "string option \<Rightarrow> string" where
  "str_of v = (case v of None \<Rightarrow> ''undefined'' | Some s \<Rightarrow> s)"

text \<open>The template \<open>`epub://${bookKey}/${p}`\<close>, which the component writes five times.\<close>

definition epub_uri :: "string option \<Rightarrow> string \<Rightarrow> string" where
  "epub_uri bk p = ''epub://'' @ str_of bk @ ''/'' @ p"

text \<open>\<open>xs[i]\<close>: the element when \<open>i\<close> is an index of the array, otherwise undefined.\<close>

definition js_index :: "'a list \<Rightarrow> int \<Rightarrow> 'a option" where
  "js_index xs i = (if 0 \<le> i \<and> i < int (length xs) then Some (xs ! nat i) else None)"

text \<open>
  \<open>s.replace(pat, rep)\<close> with a string pattern: only the first occurrence of \<open>pat\<close>,
  wherever it starts, is replaced (an empty pattern matches at position 0). The
  component only passes the replacement \<open>''\<close>, so the \<open>$\<close> patterns of a replacement
  string never arise.
\<close>

fun replace :: "string \<Rightarrow> string \<Rightarrow> string \<Rightarrow> string" where
  "replace [] pat rep = (if pat = [] then rep else [])"
| "replace (c # cs) pat rep =
     (if prefix pat (c # cs) then rep @ drop (length pat) (c # cs)
      else c # replace cs pat rep)"

text \<open>Truthiness of a parsed value, and reading a field of it (undefined is \<open>None\<close>).
  For the two keys read by the component, primitives and arrays have no such property.\<close>

fun truthy :: "json \<Rightarrow> bool" where
  "truthy JNull = False"
| "truthy (JBool b) = b"
| "truthy (JNumber n) = (n \<noteq> Finite 0 \<and> n \<noteq> NaN)"
| "truthy (JString s) = (s \<noteq> [])"
| "truthy (JArray xs) = True"
| "truthy (JObject kvs) = True"

fun get_prop :: "json \<Rightarrow> string \<Rightarrow> json option" where
  "get_prop (JObject kvs) k = map_of kvs k"
| "get_prop v k = None"

text \<open>\<open>v === bookKey\<close> for a value read from a parsed object against \<open>string | undefined\<close>.\<close>

fun strict_eq :: "json option \<Rightarrow> string option \<Rightarrow> bool" where
  "strict_eq None None = True"
| "strict_eq (Some (JString a)) (Some b) = (a = b)"
| "strict_eq v w = False"

fun join :: "string \<Rightarrow> string list \<Rightarrow> string" where
  "join sep [] = []"
| "join sep [x] = x"
| "join sep (x # y # ys) = x @ sep @ join sep (y # ys)"

text \<open>
  The runtime functions the component calls but does not define:
  \<open>JSON.stringify\<close>; \<open>JSON.parse\<close>, whose \<open>SyntaxError\<close> is the \<open>Inl\<close> result; the
  conversion of a number to a string; and the text of an error interpolated into a
  message.
\<close>

datatype js_error = SyntaxError | TypeError

record js_runtime =
  JSON_stringify :: "json \<Rightarrow> string"
  JSON_parse :: "string \<Rightarrow> js_error + json"
  Number_toString :: "number \<Rightarrow> string"
  Error_toString :: "js_error \<Rightarrow> string"

text \<open>
  Interpolation of an arbitrary parsed value into a template literal. A string is
  itself. An object is \<open>[object Object]\<close>, unless it has a field \<open>toString\<close> of its
  own: a parsed field is never a function, so the conversion finds nothing to call and
  raises a \<open>TypeError\<close>. An array joins its elements with commas, printing \<open>null\<close>
  elements as nothing, and raises when the conversion of an element does.
\<close>

fun to_string :: "js_runtime \<Rightarrow> json \<Rightarrow> js_error + string" where
  "to_string rt JNull = Inr ''null''"
| "to_string rt (JBool b) = Inr (if b then ''true'' else ''false'')"
| "to_string rt (JNumber n) = Inr (Number_toString rt n)"
| "to_string rt (JString s) = Inr s"
| "to_string rt (JArray xs) =
     (let parts = map (\<lambda>x. if x = JNull then Inr [] else to_string rt x) xs
      in if list_ex isl parts then Inl TypeError else Inr (join '','' (map projr parts)))"
| "to_string rt (JObject kvs) =
     (if ''toString'' \<in> set (map fst kvs) then Inl TypeError else Inr ''[object Object]'')"

definition interpolate :: "js_runtime \<Rightarrow> json option \<Rightarrow> js_error + string" where
  "interpolate rt v = (case v of None \<Rightarrow> Inr ''undefined'' | Some j \<Rightarrow> to_string rt j)"

section \<open>The reader component (revised \<open>BookReader\<close>)\<close>

text \<open>
  The component's React state. \<open>bookKey\<close> is a route parameter, not state, and is
  passed to every function as \<open>bk\<close>. A handler reads the state of the render it was
  created in and queues updates; the model returns the state after the updates,
  together with the effects the handler performed, in order.
\<close>

record reader_state =
  toc :: "TocItem list"
  currentContent :: string
  bookTitle :: string
  loading :: bool
  error :: "string option"
  currentPage :: number
  totalPages :: number
  spine :: "string list"
  currentSpineIndex :: int

definition initial_state :: reader_state where
  "initial_state =
     \<lparr>toc = [], currentContent = [], bookTitle = [], loading = True, error = None,
      currentPage = Finite 0, totalPages = Finite 0, spine = [], currentSpineIndex = 0\<rparr>"

datatype effect =
    SetItem string string
  | SendMessage json
  | ConsoleError string
  | Navigate string

text \<open>
  The commands of the back end reached through \<open>invoke\<close>; a rejected promise is
  \<open>Inl\<close> of the error's text.
\<close>

record backend =
  get_book_title :: "string option \<Rightarrow> string + string"
  get_book_toc :: "string option \<Rightarrow> string + TocItem list"
  get_spine :: "string option \<Rightarrow> string + string list"
  get_current_spine_index :: "string option \<Rightarrow> json option \<Rightarrow> string + int option"

subsection \<open>Reading position persistence\<close>

text \<open>\<open>saveReadingPosition\<close>; \<open>now\<close> is the value of \<open>Date.now()\<close>.\<close>

definition saveReadingPosition ::
  "js_runtime \<Rightarrow> int \<Rightarrow> string option \<Rightarrow> reader_state \<Rightarrow> effect list" where
  "saveReadingPosition rt now bk s =
     (if falsy bk \<or> currentContent s = [] then []
      else
        let position =
              \<lparr>bookKey = str_of bk,
               contentPath = replace (currentContent s) (epub_uri bk []) [],
               page = currentPage s,
               timestamp = now\<rparr>
        in [SetItem (''reading-'' @ str_of bk) (JSON_stringify rt (position_json position))])"

text \<open>\<open>loadReadingPosition\<close>; \<open>ls\<close> is \<open>localStorage\<close>, and \<open>null\<close> is \<open>JNull\<close>.\<close>

definition loadReadingPosition ::
  "js_runtime \<Rightarrow> string option \<Rightarrow> (string \<rightharpoonup> string) \<Rightarrow> js_error + json" where
  "loadReadingPosition rt bk ls =
     (if falsy bk then Inr JNull
      else case ls (''reading-'' @ str_of bk) of
             None \<Rightarrow> Inr JNull
           | Some saved \<Rightarrow>
               if saved = [] then Inr JNull
               else (case JSON_parse rt saved of
                       Inl e \<Rightarrow> Inr JNull
                     | Inr v \<Rightarrow> Inr v))"

subsection \<open>Pagination handlers\<close>

text \<open>
  \<open>iframe\<close> says whether \<open>iframeRef.current\<close> is set: \<open>?.\<close> sends nothing otherwise.
\<close>

definition send_to_iframe :: "bool \<Rightarrow> json \<Rightarrow> effect list" where
  "send_to_iframe iframe msg = (if iframe then [SendMessage msg] else [])"

definition handleNextPage ::
  "string option \<Rightarrow> bool \<Rightarrow> reader_state \<Rightarrow> reader_state \<times> effect list" where
  "handleNextPage bk iframe s =
     (if js_ge (currentPage s) (js_minus (totalPages s) (Finite 1)) then
        (if currentSpineIndex s < int (length (spine s)) - 1 then
           let nextSpineIndex = currentSpineIndex s + 1;
               nextContentPath = js_index (spine s) nextSpineIndex
           in (s\<lparr>currentContent := epub_uri bk (str_of nextContentPath),
                 currentSpineIndex := nextSpineIndex,
                 currentPage := Finite 0\<rparr>, [])
         else (s, []))
      else (s, send_to_iframe iframe (JObject [(''type'', JString ''pagination-next'')])))"

definition handlePreviousPage ::
  "string option \<Rightarrow> bool \<Rightarrow> reader_state \<Rightarrow> reader_state \<times> effect list" where
  "handlePreviousPage bk iframe s =
     (if currentPage s = Finite 0 then
        (if currentSpineIndex s > 0 then
           let prevSpineIndex = currentSpineIndex s - 1;
               prevContentPath = js_index (spine s) prevSpineIndex
           in (s\<lparr>currentContent := epub_uri bk (str_of prevContentPath),
                 currentSpineIndex := prevSpineIndex,
                 currentPage := Finite 0\<rparr>, [])
         else (s, []))
      else (s, send_to_iframe iframe (JObject [(''type'', JString ''pagination-previous'')])))"

text \<open>
  \<open>handlePaginationUpdate\<close>: the two setters queue the new values, and
  \<open>saveReadingPosition\<close> then runs in the same closure, so it still reads the
  \<open>currentPage\<close> and \<open>currentContent\<close> of the render the handler belongs to.
\<close>

definition handlePaginationUpdate ::
  "js_runtime \<Rightarrow> int \<Rightarrow> string option \<Rightarrow> number \<Rightarrow> number \<Rightarrow> reader_state
     \<Rightarrow> reader_state \<times> effect list" where
  "handlePaginationUpdate rt now bk pg tot s =
     (s\<lparr>currentPage := pg, totalPages := tot\<rparr>, saveReadingPosition rt now bk s)"

subsection \<open>Loading a book\<close>

text \<open>The \<open>catch\<close> and \<open>finally\<close> blocks of \<open>loadBook\<close>, and its normal exit.\<close>

definition load_failed :: "string \<Rightarrow> reader_state \<Rightarrow> reader_state \<times> effect list" where
  "load_failed err s =
     (s\<lparr>error := Some (''Failed to load book: '' @ err), loading := False\<rparr>,
      [ConsoleError (''Error loading book: '' @ err)])"

definition load_done :: "reader_state \<Rightarrow> reader_state \<times> effect list" where
  "load_done s = (s\<lparr>loading := False\<rparr>, [])"

text \<open>
  \<open>loadBook\<close> of the revised component. Each \<open>await invoke(...)\<close> either yields
  its value or rejects, which jumps to \<open>catch\<close> with the state set so far; so does a
  template literal whose interpolation raises, before \<open>setCurrentContent\<close> is called.
\<close>

definition loadBook ::
  "js_runtime \<Rightarrow> backend \<Rightarrow> string option \<Rightarrow> (string \<rightharpoonup> string) \<Rightarrow> reader_state
     \<Rightarrow> reader_state \<times> effect list" where
  "loadBook rt be bk ls s0 =
     (let s1 = s0\<lparr>loading := True, error := None\<rparr> in
      case get_book_title be bk of
        Inl e \<Rightarrow> load_failed e s1
      | Inr title \<Rightarrow>
     (let s2 = s1\<lparr>bookTitle := title\<rparr> in
      case get_book_toc be bk of
        Inl e \<Rightarrow> load_failed e s2
      | Inr tocData \<Rightarrow>
     (let s3 = s2\<lparr>toc := tocData\<rparr> in
      case get_spine be bk of
        Inl e \<Rightarrow> load_failed e s3
      | Inr spineData \<Rightarrow>
     (let s4 = s3\<lparr>spine := spineData\<rparr> in
      case loadReadingPosition rt bk ls of
        Inl e \<Rightarrow> load_failed (Error_toString rt e) s4
      | Inr savedPosition \<Rightarrow>
          if truthy savedPosition \<and> strict_eq (get_prop savedPosition ''bookKey'') bk then
            (let contentPath = get_prop savedPosition ''contentPath''
             in case interpolate rt contentPath of
                  Inl e \<Rightarrow> load_failed (Error_toString rt e) s4
                | Inr pathText \<Rightarrow>
            (let s5 = s4\<lparr>currentContent := epub_uri bk pathText\<rparr>
             in case get_current_spine_index be bk contentPath of
                  Inl e \<Rightarrow> load_failed e s5
                | Inr spineIdx \<Rightarrow>
                    (case spineIdx of
                       None \<Rightarrow> load_done s5
                     | Some i \<Rightarrow> load_done (s5\<lparr>currentSpineIndex := i\<rparr>))))
          else if length spineData > 0 then
            (let firstContent = js_index spineData 0
             in load_done (s4\<lparr>currentContent := epub_uri bk (str_of firstContent),
                               currentSpineIndex := 0\<rparr>))
          else load_done s4))))"

text \<open>
  \<open>loadBook\<close> of the original component (\<open>src/components/BookReader.tsx\<close>), which
  has only the state \<open>toc\<close>, \<open>currentContent\<close>, \<open>bookTitle\<close>, \<open>loading\<close> and
  \<open>error\<close>; the other fields of the record are not touched.
\<close>

definition loadBook_original ::
  "backend \<Rightarrow> string option \<Rightarrow> reader_state \<Rightarrow> reader_state \<times> effect list" where
  "loadBook_original be bk s0 =
     (let s1 = s0\<lparr>loading := True, error := None\<rparr> in
      case get_book_title be bk of
        Inl e \<Rightarrow> load_failed e s1
      | Inr title \<Rightarrow>
     (let s2 = s1\<lparr>bookTitle := title\<rparr> in
      case get_book_toc be bk of
        Inl e \<Rightarrow> load_failed e s2
      | Inr tocData \<Rightarrow>
     (let s3 = s2\<lparr>toc := tocData\<rparr> in
      if length tocData > 0 then
        (let firstContent = map_option content (js_index tocData 0)
         in load_done (s3\<lparr>currentContent := epub_uri bk (str_of firstContent)\<rparr>))
      else load_done s3)))"

text \<open>The effect on \<open>bookKey\<close>, run when the component mounts.\<close>

definition bookKey_effect ::
  "js_runtime \<Rightarrow> backend \<Rightarrow> string option \<Rightarrow> (string \<rightharpoonup> string) \<Rightarrow> reader_state
     \<Rightarrow> reader_state \<times> effect list" where
  "bookKey_effect rt be bk ls s =
     (if falsy bk then (s\<lparr>error := Some ''No book specified'', loading := False\<rparr>, [])
      else loadBook rt be bk ls s)"

subsection \<open>The remaining handlers\<close>

definition handleTocItemClick ::
  "backend \<Rightarrow> string option \<Rightarrow> string \<Rightarrow> reader_state \<Rightarrow> reader_state \<times> effect list" where
  "handleTocItemClick be bk c s =
     (let fullUri = epub_uri bk c;
          s1 = s\<lparr>currentContent := fullUri, currentPage := Finite 0\<rparr>
      in case get_current_spine_index be bk (Some (JString c)) of
           Inl e \<Rightarrow> (s1, [ConsoleError (''Failed to get spine index: '' @ e)])
         | Inr spineIdx \<Rightarrow>
             (case spineIdx of
                None \<Rightarrow> (s1, [])
              | Some i \<Rightarrow> (s1\<lparr>currentSpineIndex := i\<rparr>, [])))"

definition handleBackClick :: "reader_state \<Rightarrow> reader_state \<times> effect list" where
  "handleBackClick s = (s, [Navigate ''/''])"

subsection \<open>Runs of the component\<close>

text \<open>
  What can happen to a mounted reader, and the storage an effect leaves behind. A run
  pairs every event with the value of the clock when it is handled and collects the
  effects in order.
\<close>

datatype event =
    Mount
  | PaginationUpdate number number
  | NextPage
  | PreviousPage
  | TocItemClick string
  | BackClick

fun apply_effect :: "(string \<rightharpoonup> string) \<Rightarrow> effect \<Rightarrow> (string \<rightharpoonup> string)" where
  "apply_effect ls (SetItem k v) = ls(k \<mapsto> v)"
| "apply_effect ls fx = ls"

fun handle ::
  "js_runtime \<Rightarrow> backend \<Rightarrow> string option \<Rightarrow> bool \<Rightarrow> int \<Rightarrow> event
     \<Rightarrow> (string \<rightharpoonup> string) \<Rightarrow> reader_state \<Rightarrow> reader_state \<times> effect list" where
  "handle rt be bk iframe now Mount ls s = bookKey_effect rt be bk ls s"
| "handle rt be bk iframe now (PaginationUpdate pg tot) ls s =
     handlePaginationUpdate rt now bk pg tot s"
| "handle rt be bk iframe now NextPage ls s = handleNextPage bk iframe s"
| "handle rt be bk iframe now PreviousPage ls s = handlePreviousPage bk iframe s"
| "handle rt be bk iframe now (TocItemClick c) ls s = handleTocItemClick be bk c s"
| "handle rt be bk iframe now BackClick ls s = handleBackClick s"

fun run ::
  "js_runtime \<Rightarrow> backend \<Rightarrow> string option \<Rightarrow> bool \<Rightarrow> (int \<times> event) list
     \<Rightarrow> reader_state \<times> (string \<rightharpoonup> string)
     \<Rightarrow> (reader_state \<times> (string \<rightharpoonup> string)) \<times> effect list" where
  "run rt be bk iframe [] w = (w, [])"
| "run rt be bk iframe ((now, ev) # evs) (s, ls) =
     (let (s', fx) = handle rt be bk iframe now ev ls s;
          (w', fxs) = run rt be bk iframe evs (s', foldl apply_effect ls fx)
      in (w', fx @ fxs))"

text \<open>
  A number that is a page index (a non-negative integer), and an event whose reported
  page number, if it reports one, is a page index.
\<close>

definition is_page_index :: "number \<Rightarrow> bool" where
  "is_page_index n = (case n of Finite q \<Rightarrow> 0 \<le> q \<and> q = of_int \<lfloor>q\<rfloor> | _ \<Rightarrow> False)"

fun page_reported_ok :: "event \<Rightarrow> bool" where
  "page_reported_ok (PaginationUpdate pg tot) = is_page_index pg"
| "page_reported_ok ev = True"

section \<open>The content service behind the commands\<close>

text \<open>
  The reader reaches the archive loader, the library index, the navigation model and
  the script injected into served pages only through \<open>invoke\<close> and the frame's
  messages. Their code (the Rust side of the application) is not among the sources, so
  the definitions of this section follow the specification's description of them. The
  specification's \<open>TocNode\<close> is the \<open>TocItem\<close> of \<open>src/types/book.ts\<close>, with
  \<open>content\<close> for \<open>contentPath\<close> and \<open>play_order\<close> for \<open>playOrder\<close>.
\<close>

subsection \<open>Archive loader\<close>

text \<open>
  Modelled from the spec: the kinds of \<open>LoadError\<close> of the archive loader (malformed
  container, missing package file, malformed manifest/spine/navigation XML, and the
  load-time integrity error of a spine entry that resolves to no manifest entry).
\<close>

datatype LoadError =
    MalformedContainer
  | MissingPackage
  | MalformedXml
  | SpineIntegrity

text \<open>
  Modelled from the spec: what the package descriptors of an archive declare, as the
  loader reads them: the optional title, the manifest entries (resource id, path, MIME
  type), the spine as resource paths in reading order, and the navigation points in
  declaration order. The cover is left out; no property below reads it.
\<close>

record package =
  pkg_title :: "string option"
  pkg_manifest :: "(string \<times> string \<times> string) list"
  pkg_spine :: "string list"
  pkg_nav :: "TocItem list"

text \<open>
  Modelled from the spec: \<open>EpubDocument\<close>, the immutable in-memory document (the
  fields \<open>bookKey\<close>, \<open>title\<close>, \<open>manifest\<close>, \<open>spine\<close> and \<open>toc\<close> of the data
  model, prefixed here because the reader's own records use the same names).
\<close>

record EpubDocument =
  doc_bookKey :: string
  doc_title :: string
  doc_manifest :: "string \<rightharpoonup> string \<times> string"
  doc_spine :: "string list"
  doc_toc :: "TocItem list"


definition tocOf :: "EpubDocument \<Rightarrow> TocItem list" where
  "tocOf doc = doc_toc doc"

text \<open>
  Modelled from the spec: the navigation tree the loader builds. At each level the
  children are ordered ascending by \<open>playOrder\<close>, ties broken by declaration order:
  a stable sort of the declared children, applied at every level.
\<close>

fun order_item :: "TocItem \<Rightarrow> TocItem" where
  "order_item (TocItem l c p ch) = TocItem l c p (sort_key play_order (map order_item ch))"

text \<open>Modelled from the spec: the same ordering for the top level of the forest.\<close>

definition order_toc :: "TocItem list \<Rightarrow> TocItem list" where
  "order_toc xs = sort_key play_order (map order_item xs)"

text \<open>
  Modelled from the spec: the tree invariant of \<open>TocNode\<close>, as a predicate: the
  children of every node, and the top level, are non-decreasing in \<open>play_order\<close>.
\<close>

fun item_ordered :: "TocItem \<Rightarrow> bool" where
  "item_ordered (TocItem l c p ch) =
     (sorted (map play_order ch) \<and> list_all item_ordered ch)"

definition toc_ordered :: "TocItem list \<Rightarrow> bool" where
  "toc_ordered xs = (sorted (map play_order xs) \<and> list_all item_ordered xs)"

text \<open>
  Modelled from the spec: the title falls back to the stem of the file name when the
  package metadata has none.
\<close>

definition file_stem :: "string \<Rightarrow> string" where
  "file_stem name =
     (if CHR ''.'' \<in> set name
      then rev (tl (dropWhile (\<lambda>c. c \<noteq> CHR ''.'') (rev name)))
      else name)"

text \<open>
  Modelled from the spec: \<open>load(filePath)\<close> of the archive loader. \<open>parsed\<close> is what
  opening and parsing the file gives: a \<open>LoadError\<close> or the declared package. The
  \<open>bookKey\<close> is the file name; a spine entry outside the manifest is an integrity
  error at load time.
\<close>

definition load :: "string \<Rightarrow> LoadError + package \<Rightarrow> LoadError + EpubDocument" where
  "load fileName parsed =
     (case parsed of
        Inl e \<Rightarrow> Inl e
      | Inr pkg \<Rightarrow>
          if list_all (\<lambda>p. p \<in> set (map (fst \<circ> snd) (pkg_manifest pkg))) (pkg_spine pkg)
          then Inr \<lparr>doc_bookKey = fileName,
                    doc_title = (case pkg_title pkg of None \<Rightarrow> file_stem fileName | Some t \<Rightarrow> t),
                    doc_manifest = map_of (pkg_manifest pkg),
                    doc_spine = pkg_spine pkg,
                    doc_toc = order_toc (pkg_nav pkg)\<rparr>
          else Inl SpineIntegrity)"

subsection \<open>Library index\<close>

text \<open>
  Modelled from the spec: the one fatal condition of the library index, a configured
  directory that is missing or unreadable.
\<close>

datatype ScanError = DirectoryUnreadable

text \<open>Modelled from the spec: the directory contract, a file with a \<open>.epub\<close> extension.\<close>

definition is_epub :: "string \<Rightarrow> bool" where
  "is_epub name = suffix ''.epub'' name"

text \<open>
  Modelled from the spec: the iteration of \<open>loadAll\<close> over the directory entries, each
  a file name with what parsing the file gives. Every \<open>.epub\<close> file is attempted on
  its own: a \<open>LoadError\<close> is logged and the scan continues, a loaded document is
  entered under its file name. The accumulator is the index and the log so far.
\<close>

fun scan ::
  "(string \<times> (LoadError + package)) list
     \<Rightarrow> (string \<rightharpoonup> EpubDocument) \<times> (string \<times> LoadError) list
     \<Rightarrow> (string \<rightharpoonup> EpubDocument) \<times> (string \<times> LoadError) list" where
  "scan [] acc = acc"
| "scan ((name, parsed) # rest) (idx, logged) =
     (if is_epub name then
        (case load name parsed of
           Inl e \<Rightarrow> scan rest (idx, logged @ [(name, e)])
         | Inr doc \<Rightarrow> scan rest (idx(name \<mapsto> doc), logged))
      else scan rest (idx, logged))"

text \<open>
  Modelled from the spec: \<open>loadAll(directoryPath)\<close> of the library index; \<open>fs\<close> gives
  the entries of each readable directory.
\<close>

definition loadAll ::
  "(string \<rightharpoonup> (string \<times> (LoadError + package)) list) \<Rightarrow> string
     \<Rightarrow> ScanError + (string \<rightharpoonup> EpubDocument) \<times> (string \<times> LoadError) list" where
  "loadAll fs directoryPath =
     (case fs directoryPath of
        None \<Rightarrow> Inl DirectoryUnreadable
      | Some entries \<Rightarrow> Inr (scan entries (Map.empty, [])))"

text \<open>
  Modelled from the spec: a parseable EPUB file (an entry with the extension that the
  archive loader loads) and an unparseable one (an entry with the extension on which
  it returns a \<open>LoadError\<close>).
\<close>

definition parseable :: "string \<times> (LoadError + package) \<Rightarrow> bool" where
  "parseable entry = (is_epub (fst entry) \<and> \<not> isl (load (fst entry) (snd entry)))"

definition unparseable :: "string \<times> (LoadError + package) \<Rightarrow> bool" where
  "unparseable entry = (is_epub (fst entry) \<and> isl (load (fst entry) (snd entry)))"

subsection \<open>Navigation model\<close>




subsection \<open>The injected script's click listener\<close>

text \<open>
  Modelled from the spec: the scheme of a reference, for the scheme-driven
  classification of the injected script. The specification names schemes but not their
  syntax; a reference has a scheme when a letter followed by letters, digits, \<open>+\<close>,
  \<open>-\<close> or \<open>.\<close> stands before its first colon.
\<close>

definition is_alpha :: "char \<Rightarrow> bool" where
  "is_alpha c = (let n = (of_char c :: nat) in (65 \<le> n \<and> n \<le> 90) \<or> (97 \<le> n \<and> n \<le> 122))"

definition is_scheme_char :: "char \<Rightarrow> bool" where
  "is_scheme_char c =
     (let n = (of_char c :: nat)
      in is_alpha c \<or> (48 \<le> n \<and> n \<le> 57) \<or> n = 43 \<or> n = 45 \<or> n = 46)"

definition is_scheme :: "string \<Rightarrow> bool" where
  "is_scheme s = (s \<noteq> [] \<and> is_alpha (hd s) \<and> list_all is_scheme_char s)"

definition scheme_of :: "string \<Rightarrow> string option" where
  "scheme_of href =
     (let s = takeWhile (\<lambda>c. c \<noteq> CHR '':'') href
      in if length s < length href \<and> is_scheme s then Some s else None)"

text \<open>
  Modelled from the spec: the three classes of a clicked anchor's \<open>href\<close>: (a)
  fragment-only, (b) relative path or custom-scheme URI, (c) any other scheme. The
  custom scheme is \<open>epub\<close>.
\<close>

datatype link_class = FragmentOnly | InPlace | External

definition classify :: "string \<Rightarrow> link_class" where
  "classify href =
     (if prefix ''#'' href then FragmentOnly
      else case scheme_of href of
             None \<Rightarrow> InPlace
           | Some sch \<Rightarrow> if sch = ''epub'' then InPlace else External)"

text \<open>
  Modelled from the spec: what a click does. A fragment-only link is left to the
  browser; a relative path or custom-scheme URI prevents the default and sets the
  rendering surface's location to the target; any other scheme prevents the default
  and posts \<open>{type: "epub-external-link", url: href}\<close> to the parent.
\<close>

record click_outcome =
  default_prevented :: bool
  location_set :: "string option"
  posted :: "json list"

definition on_click :: "string \<Rightarrow> click_outcome" where
  "on_click href =
     (case classify href of
        FragmentOnly \<Rightarrow> \<lparr>default_prevented = False, location_set = None, posted = []\<rparr>
      | InPlace \<Rightarrow> \<lparr>default_prevented = True, location_set = Some href, posted = []\<rparr>
      | External \<Rightarrow>
          \<lparr>default_prevented = True, location_set = None,
           posted = [JObject [(''type'', JString ''epub-external-link''),
                              (''url'', JString href)]]\<rparr>)"

section \<open>A runtime and a back end for the examples\<close>

text \<open>
  The theorems below hold for every runtime and every back end. Their instances at
  concrete inputs use this serializer (objects and arrays without white space, strings
  in double quotes with \<open>"\<close> and \<open>\\<close> escaped, numbers that are not finite as
  \<open>null\<close>), a parser that reads back exactly the texts of the values it is given and
  rejects everything else, and a back end that serves one book whose spine starts with
  a cover page.
\<close>

text \<open>Decimal digits of an integer, and of a short decimal fraction.\<close>

fun show_nat :: "nat \<Rightarrow> string" where
  "show_nat n =
     (if n < 10 then [char_of (48 + n)]
      else show_nat (n div 10) @ [char_of (48 + n mod 10)])"

declare show_nat.simps [simp del]

fun frac_digits :: "nat \<Rightarrow> rat \<Rightarrow> string" where
  "frac_digits 0 r = []"
| "frac_digits (Suc n) r =
     (if r = 0 then []
      else let d = \<lfloor>r * 10\<rfloor>
           in char_of (48 + nat d) # frac_digits n (r * 10 - of_int d))"

definition show_rat :: "rat \<Rightarrow> string" where
  "show_rat q =
     (let w = \<lfloor>\<bar>q\<bar>\<rfloor>
      in (if q < 0 then ''-'' else []) @ show_nat (nat w)
           @ (if \<bar>q\<bar> = of_int w then [] else ''.'' @ frac_digits 17 (\<bar>q\<bar> - of_int w)))"

fun show_number :: "number \<Rightarrow> string" where
  "show_number (Finite q) = show_rat q"
| "show_number PosInf = ''Infinity''"
| "show_number NegInf = ''-Infinity''"
| "show_number NaN = ''NaN''"

definition quote :: "string \<Rightarrow> string" where
  "quote s =
     CHR 0x22 # concat (map (\<lambda>c. if c = CHR 0x22 \<or> c = CHR 0x5C then [CHR 0x5C, c] else [c]) s)
       @ [CHR 0x22]"

fun json_text :: "json \<Rightarrow> string" where
  "json_text JNull = ''null''"
| "json_text (JBool b) = (if b then ''true'' else ''false'')"
| "json_text (JNumber n) = (case n of Finite q \<Rightarrow> show_rat q | _ \<Rightarrow> ''null'')"
| "json_text (JString s) = quote s"
| "json_text (JArray xs) = ''['' @ join '','' (map json_text xs) @ '']''"
| "json_text (JObject kvs) =
     ''{'' @ join '','' (map (\<lambda>(k, v). quote k @ '':'' @ json_text v) kvs) @ ''}''"

definition example_runtime :: "json list \<Rightarrow> js_runtime" where
  "example_runtime known =
     \<lparr>JSON_stringify = json_text,
      JSON_parse = (\<lambda>t. case find (\<lambda>j. json_text j = t) known of
                           None \<Rightarrow> Inl SyntaxError
                         | Some j \<Rightarrow> Inr j),
      Number_toString = show_number,
      Error_toString =
        (\<lambda>e. case e of
               SyntaxError \<Rightarrow> ''SyntaxError: Unexpected token''
             | TypeError \<Rightarrow> ''TypeError: Cannot convert object to primitive value'')\<rparr>"

definition example_backend :: backend where
  "example_backend =
     \<lparr>get_book_title = (\<lambda>bk. Inr ''Frankenstein''),
      get_book_toc = (\<lambda>bk. Inr [TocItem ''Letter 1'' ''OEBPS/ch1.html'' 1 []]),
      get_spine = (\<lambda>bk. Inr [''OEBPS/cover.html'', ''OEBPS/ch1.html'']),
      get_current_spine_index =
        (\<lambda>bk p. Inr (if p = Some (JString ''OEBPS/ch1.html'') then Some 1 else None))\<rparr>"

text \<open>
  Packages for the examples: the two-chapter spine of the specification's scenario, a
  package whose spine lists one resource twice, a package with a \<open>#\<close> in a file
  name, a package whose navigation points are declared out of order, and a directory
  holding two of them beside a corrupt archive and a file that is not an EPUB.
\<close>

definition two_chapters :: package where
  "two_chapters =
     \<lparr>pkg_title = Some ''Frankenstein'',
      pkg_manifest = [(''ch1'', ''OEBPS/ch1.html'', ''application/xhtml+xml''),
                      (''ch2'', ''OEBPS/ch2.html'', ''application/xhtml+xml'')],
      pkg_spine = [''OEBPS/ch1.html'', ''OEBPS/ch2.html''],
      pkg_nav = []\<rparr>"





definition shuffled_nav :: package where
  "shuffled_nav =
     \<lparr>pkg_title = None,
      pkg_manifest = [(''c'', ''c.html'', ''application/xhtml+xml'')],
      pkg_spine = [''c.html''],
      pkg_nav = [TocItem ''Part two'' ''c.html#p2'' 2
                   [TocItem ''2.2'' ''c.html#s22'' 5 [], TocItem ''2.1'' ''c.html#s21'' 4 []],
                 TocItem ''Part one'' ''c.html#p1'' 1 [],
                 TocItem ''Part two, again'' ''c.html#p2b'' 2 []]\<rparr>"

definition example_directory :: "(string \<times> (LoadError + package)) list" where
  "example_directory =
     [(''frankenstein.epub'', Inr two_chapters),
      (''broken.epub'', Inl MalformedContainer),
      (''notes.txt'', Inl MalformedContainer),
      (''shuffled.epub'', Inr shuffled_nav)]"

section \<open>Pagination at the ends of the book\<close>

text \<open>
  C2. On the last page of the last chapter (\<open>currentPage \<ge> totalPages - 1\<close> and
  \<open>currentSpineIndex \<ge> spine.length - 1\<close>) \<open>handleNextPage\<close> changes no state and
  performs no effect, so it posts no message; on the first page of the first chapter
  (\<open>currentPage = 0\<close> and \<open>currentSpineIndex = 0\<close>) \<open>handlePreviousPage\<close> does the
  same. The whole state is unchanged, in particular \<open>currentContent\<close>,
  \<open>currentSpineIndex\<close> and \<open>currentPage\<close>. The comparisons are those of the code, on
  whatever numbers the state holds.
\<close>

theorem pagination_clamped:
  "(js_ge (currentPage s) (js_minus (totalPages s) (Finite 1))
      \<and> currentSpineIndex s \<ge> int (length (spine s)) - 1
      \<longrightarrow> handleNextPage bk iframe s = (s, []))
   \<and> (currentPage s = Finite 0 \<and> currentSpineIndex s = 0
      \<longrightarrow> handlePreviousPage bk iframe s = (s, []))"
  by (simp add: handleNextPage_def handlePreviousPage_def)

theorem pagination_clamped_witness:
  "handleNextPage (Some ''b.epub'') True
     (initial_state\<lparr>spine := [''a.html'', ''b.html''], currentSpineIndex := 1,
                    currentPage := Finite 4, totalPages := Finite 5\<rparr>)
   = (initial_state\<lparr>spine := [''a.html'', ''b.html''], currentSpineIndex := 1,
                    currentPage := Finite 4, totalPages := Finite 5\<rparr>, [])
   \<and> handlePreviousPage (Some ''b.epub'') True
     (initial_state\<lparr>spine := [''a.html'', ''b.html''], totalPages := Finite 5\<rparr>)
   = (initial_state\<lparr>spine := [''a.html'', ''b.html''], totalPages := Finite 5\<rparr>, [])"
  using pagination_clamped
    [of "initial_state\<lparr>spine := [''a.html'', ''b.html''], currentSpineIndex := 1,
                       currentPage := Finite 4, totalPages := Finite 5\<rparr>" "Some ''b.epub''" True]
    pagination_clamped
    [of "initial_state\<lparr>spine := [''a.html'', ''b.html''], totalPages := Finite 5\<rparr>"
        "Some ''b.epub''" True]
  by (simp add: initial_state_def)

section \<open>Messages for movement inside a chapter\<close>

lemma js_lt_not_ge: "js_lt a b \<Longrightarrow> \<not> js_ge a b"
  by (cases a; cases b) auto

lemma js_lt_zero_not_zero: "js_lt (Finite 0) a \<Longrightarrow> a \<noteq> Finite 0"
  by auto

text \<open>
  C4. When the reader asks for the next page inside a chapter
  (\<open>currentPage < totalPages - 1\<close>), the only message handed to the rendered content
  is the object \<open>{type: "pagination-next"}\<close>, with that single field; for the previous
  page (\<open>currentPage > 0\<close>) it is \<open>{type: "pagination-previous"}\<close>. Nothing else is
  sent and the state does not change. (With no frame mounted, \<open>?.\<close> sends nothing.)
\<close>

theorem page_movement_message:
  "(js_lt (currentPage s) (js_minus (totalPages s) (Finite 1)) \<longrightarrow>
      handleNextPage bk iframe s =
        (s, if iframe then [SendMessage (JObject [(''type'', JString ''pagination-next'')])]
            else []))
   \<and> (js_lt (Finite 0) (currentPage s) \<longrightarrow>
      handlePreviousPage bk iframe s =
        (s, if iframe then [SendMessage (JObject [(''type'', JString ''pagination-previous'')])]
            else []))"
  using js_lt_not_ge [of "currentPage s" "js_minus (totalPages s) (Finite 1)"]
    js_lt_zero_not_zero [of "currentPage s"]
  by (simp add: handleNextPage_def handlePreviousPage_def send_to_iframe_def)

theorem page_movement_message_witness:
  "handleNextPage (Some ''b.epub'') True
       (initial_state\<lparr>currentPage := Finite 2, totalPages := Finite 5\<rparr>)
     = (initial_state\<lparr>currentPage := Finite 2, totalPages := Finite 5\<rparr>,
        [SendMessage (JObject [(''type'', JString ''pagination-next'')])])
   \<and> handlePreviousPage (Some ''b.epub'') True
       (initial_state\<lparr>currentPage := Finite 2, totalPages := Finite 5\<rparr>)
     = (initial_state\<lparr>currentPage := Finite 2, totalPages := Finite 5\<rparr>,
        [SendMessage (JObject [(''type'', JString ''pagination-previous'')])])"
  using page_movement_message
    [of "initial_state\<lparr>currentPage := Finite 2, totalPages := Finite 5\<rparr>" "Some ''b.epub''" True]
  by (simp add: initial_state_def)

section \<open>Loading a saved position never raises\<close>

text \<open>
  C9. \<open>loadReadingPosition\<close> always returns a value and never raises. It returns
  \<open>null\<close> when \<open>bookKey\<close> is undefined (or empty), when nothing is stored under
  \<open>reading-<bookKey>\<close>, and when the stored string is not valid JSON; it returns the
  parsed value when the stored string is valid JSON. The one fact used about
  \<open>JSON.parse\<close> is that it rejects the empty string.
\<close>

theorem loadReadingPosition_never_raises:
  assumes "JSON_parse rt [] = Inl SyntaxError"
  shows "(\<exists>v. loadReadingPosition rt bk ls = Inr v)
     \<and> (falsy bk \<or> ls (''reading-'' @ str_of bk) = None
          \<longrightarrow> loadReadingPosition rt bk ls = Inr JNull)
     \<and> (\<forall>saved e. ls (''reading-'' @ str_of bk) = Some saved \<and> JSON_parse rt saved = Inl e
          \<longrightarrow> loadReadingPosition rt bk ls = Inr JNull)
     \<and> (\<forall>saved v. \<not> falsy bk \<and> ls (''reading-'' @ str_of bk) = Some saved
                    \<and> JSON_parse rt saved = Inr v
          \<longrightarrow> loadReadingPosition rt bk ls = Inr v)"
  using assms by (auto simp: loadReadingPosition_def split: option.splits sum.splits)

theorem loadReadingPosition_never_raises_witness:
  "loadReadingPosition (example_runtime [JObject [(''page'', JNumber (Finite 2))]]) (Some ''b.epub'')
      [''reading-b.epub'' \<mapsto> json_text (JObject [(''page'', JNumber (Finite 2))])]
     = Inr (JObject [(''page'', JNumber (Finite 2))])
   \<and> loadReadingPosition (example_runtime [JObject [(''page'', JNumber (Finite 2))]]) (Some ''b.epub'')
      [''reading-b.epub'' \<mapsto> ''{page''] = Inr JNull
   \<and> loadReadingPosition (example_runtime [JObject [(''page'', JNumber (Finite 2))]]) (Some ''b.epub'')
      Map.empty = Inr JNull
   \<and> loadReadingPosition (example_runtime [JObject [(''page'', JNumber (Finite 2))]]) None
      [''reading-undefined'' \<mapsto> json_text (JObject [(''page'', JNumber (Finite 2))])] = Inr JNull"
proof -
  let ?J = "JObject [(''page'', JNumber (Finite 2))]"
  let ?rt = "example_runtime [?J]"
  have p0: "JSON_parse ?rt [] = Inl SyntaxError"
    by (simp add: example_runtime_def)
  have p1: "JSON_parse ?rt (json_text ?J) = Inr ?J"
    by (simp add: example_runtime_def)
  have p2: "JSON_parse ?rt ''{page'' = Inl SyntaxError"
    by (simp add: example_runtime_def quote_def)
  have k: "str_of (Some ''b.epub'') = ''b.epub''" "\<not> falsy (Some ''b.epub'')" "falsy None"
    by (simp_all add: str_of_def falsy_def)
  have a: "loadReadingPosition ?rt (Some ''b.epub'') [''reading-b.epub'' \<mapsto> json_text ?J] = Inr ?J"
    using loadReadingPosition_never_raises
      [OF p0, of "Some ''b.epub''" "[''reading-b.epub'' \<mapsto> json_text ?J]"] p1 k
    by simp
  have b: "loadReadingPosition ?rt (Some ''b.epub'') [''reading-b.epub'' \<mapsto> ''{page''] = Inr JNull"
    using loadReadingPosition_never_raises
      [OF p0, of "Some ''b.epub''" "[''reading-b.epub'' \<mapsto> ''{page'']"] p2 k
    by simp
  have c: "loadReadingPosition ?rt (Some ''b.epub'') Map.empty = Inr JNull"
    using loadReadingPosition_never_raises [OF p0, of "Some ''b.epub''" Map.empty]
    by simp
  have d: "loadReadingPosition ?rt None [''reading-undefined'' \<mapsto> json_text ?J] = Inr JNull"
    using loadReadingPosition_never_raises
      [OF p0, of None "[''reading-undefined'' \<mapsto> json_text ?J]"] k
    by simp
  show ?thesis using a b c d by simp
qed

section \<open>Saving and resuming round-trips the content URI\<close>

lemma replace_prefix: "replace (p @ r) p [] = r"
proof (cases "p @ r")
  case Nil
  then show ?thesis by simp
next
  case (Cons a list)
  have "prefix p (a # list)" using Cons by (metis prefixI)
  then have "replace (a # list) p [] = drop (length p) (a # list)" by simp
  also have "\<dots> = r" using Cons by (metis append_eq_conv_conj)
  finally show ?thesis using Cons by simp
qed

lemma save_at_uri:
  assumes "\<not> falsy bk" and "currentContent s = epub_uri bk r"
  shows "saveReadingPosition rt now bk s =
      [SetItem (''reading-'' @ str_of bk)
         (JSON_stringify rt (position_json
            \<lparr>bookKey = str_of bk, contentPath = r, page = currentPage s, timestamp = now\<rparr>))]"
proof -
  have "epub_uri bk r = epub_uri bk [] @ r" by (simp add: epub_uri_def)
  then have "replace (currentContent s) (epub_uri bk []) [] = r"
    using assms(2) replace_prefix by simp
  moreover have "currentContent s \<noteq> []" using assms(2) by (simp add: epub_uri_def)
  ultimately show ?thesis using assms(1) by (simp add: saveReadingPosition_def)
qed

text \<open>
  C8. For a truthy \<open>bookKey\<close> and a \<open>currentContent\<close> that begins with
  \<open>epub://<bookKey>/\<close>, \<open>saveReadingPosition\<close> stores the position whose
  \<open>contentPath\<close> is \<open>currentContent\<close> without that prefix; and when that stored text
  is what a later \<open>loadBook\<close> finds (and parses back), the content it resumes at,
  \<open>epub://<bookKey>/<contentPath>\<close>, is the original \<open>currentContent\<close>.
\<close>

theorem reading_position_roundtrip:
  assumes "\<not> falsy bk" and "currentContent s = epub_uri bk r"
  shows "saveReadingPosition rt now bk s =
           [SetItem (''reading-'' @ str_of bk)
              (JSON_stringify rt (position_json
                 \<lparr>bookKey = str_of bk, contentPath = r, page = currentPage s, timestamp = now\<rparr>))]
       \<and> (\<forall>be ls s0 t tocData spineData.
            JSON_parse rt [] = Inl SyntaxError
            \<and> JSON_parse rt (JSON_stringify rt (position_json
                 \<lparr>bookKey = str_of bk, contentPath = r, page = currentPage s, timestamp = now\<rparr>))
               = Inr (position_json
                 \<lparr>bookKey = str_of bk, contentPath = r, page = currentPage s, timestamp = now\<rparr>)
            \<and> get_book_title be bk = Inr t \<and> get_book_toc be bk = Inr tocData
            \<and> get_spine be bk = Inr spineData
            \<longrightarrow> currentContent
                  (fst (loadBook rt be bk (foldl apply_effect ls (saveReadingPosition rt now bk s)) s0))
                = currentContent s)"
proof -
  let ?P = "position_json \<lparr>bookKey = str_of bk, contentPath = r, page = currentPage s, timestamp = now\<rparr>"
  have save: "saveReadingPosition rt now bk s = [SetItem (''reading-'' @ str_of bk) (JSON_stringify rt ?P)]"
    using save_at_uri [OF assms] .
  have "currentContent (fst (loadBook rt be bk (foldl apply_effect ls (saveReadingPosition rt now bk s)) s0))
                = currentContent s"
    if h: "JSON_parse rt [] = Inl SyntaxError" "JSON_parse rt (JSON_stringify rt ?P) = Inr ?P"
        "get_book_title be bk = Inr t" "get_book_toc be bk = Inr tocData" "get_spine be bk = Inr spineData"
    for be ls s0 t tocData spineData
  proof -
    have ne: "JSON_stringify rt ?P \<noteq> []" using h(1,2) by auto
    have lp: "loadReadingPosition rt bk (foldl apply_effect ls (saveReadingPosition rt now bk s)) = Inr ?P"
      using assms(1) ne h(2) by (simp add: save loadReadingPosition_def)
    obtain b where b: "bk = Some b" using assms(1) by (cases bk) (auto simp: falsy_def)
    show ?thesis
      unfolding loadBook_def lp
      using h(3-5) assms(2) b
      by (simp add: position_json_def interpolate_def load_failed_def load_done_def str_of_def
          Let_def split: sum.splits option.splits)
  qed
  then show ?thesis using save by blast
qed

theorem reading_position_roundtrip_witness:
  "saveReadingPosition
      (example_runtime [position_json \<lparr>bookKey = ''b.epub'', contentPath = ''OEBPS/ch1.html'', page = Finite 2, timestamp = 1700\<rparr>])
      1700 (Some ''b.epub'')
      (initial_state\<lparr>currentContent := ''epub://b.epub/OEBPS/ch1.html'', currentPage := Finite 2\<rparr>)
    = [SetItem ''reading-b.epub''
         (json_text (position_json \<lparr>bookKey = ''b.epub'', contentPath = ''OEBPS/ch1.html'', page = Finite 2, timestamp = 1700\<rparr>))]
   \<and> currentContent (fst (loadBook
        (example_runtime [position_json \<lparr>bookKey = ''b.epub'', contentPath = ''OEBPS/ch1.html'', page = Finite 2, timestamp = 1700\<rparr>])
        example_backend (Some ''b.epub'')
        (foldl apply_effect Map.empty
           (saveReadingPosition
              (example_runtime [position_json \<lparr>bookKey = ''b.epub'', contentPath = ''OEBPS/ch1.html'', page = Finite 2, timestamp = 1700\<rparr>])
              1700 (Some ''b.epub'')
              (initial_state\<lparr>currentContent := ''epub://b.epub/OEBPS/ch1.html'', currentPage := Finite 2\<rparr>)))
        initial_state))
     = ''epub://b.epub/OEBPS/ch1.html''"
proof -
  let ?P = "position_json \<lparr>bookKey = ''b.epub'', contentPath = ''OEBPS/ch1.html'', page = Finite 2, timestamp = 1700\<rparr>"
  let ?rt = "example_runtime [?P]"
  let ?S = "initial_state\<lparr>currentContent := ''epub://b.epub/OEBPS/ch1.html'', currentPage := Finite 2\<rparr>"
  have a: "\<not> falsy (Some ''b.epub'')" by (simp add: falsy_def)
  have b: "currentContent ?S = epub_uri (Some ''b.epub'') ''OEBPS/ch1.html''"
    by (simp add: epub_uri_def str_of_def)
  have c: "currentPage ?S = Finite 2" "str_of (Some ''b.epub'') = ''b.epub''"
    by (simp_all add: str_of_def)
  have p0: "JSON_parse ?rt [] = Inl SyntaxError"
    by (simp add: example_runtime_def position_json_def)
  have p1: "JSON_parse ?rt (JSON_stringify ?rt ?P) = Inr ?P"
    by (simp add: example_runtime_def)
  have q: "get_book_title example_backend (Some ''b.epub'') = Inr ''Frankenstein''"
    "get_book_toc example_backend (Some ''b.epub'') = Inr [TocItem ''Letter 1'' ''OEBPS/ch1.html'' 1 []]"
    "get_spine example_backend (Some ''b.epub'') = Inr [''OEBPS/cover.html'', ''OEBPS/ch1.html'']"
    by (simp_all add: example_backend_def)
  note rt = reading_position_roundtrip [OF a b, of ?rt 1700, unfolded c]
  from rt have r1: "saveReadingPosition ?rt 1700 (Some ''b.epub'') ?S
      = [SetItem ''reading-b.epub'' (json_text ?P)]"
    by (simp add: example_runtime_def)
  from rt p0 p1 q have r2: "currentContent (fst (loadBook ?rt example_backend (Some ''b.epub'')
        (foldl apply_effect Map.empty (saveReadingPosition ?rt 1700 (Some ''b.epub'') ?S)) initial_state))
      = currentContent ?S"
    by blast
  show ?thesis using r1 r2 by simp
qed

section \<open>The default content of the two versions of the reader\<close>

text \<open>
  C10. With no saved reading position and a back end that answers, the original
  reader starts at the content of the first entry of the table of contents and the
  revised reader at the first entry of the spine. Mounted in the initial state, the
  two end with the same \<open>currentContent\<close> exactly when the first ToC entry's content
  path equals the first spine entry (both absent counts as equal).
\<close>

theorem default_content_agrees:
  assumes "get_book_title be bk = Inr t" and "get_book_toc be bk = Inr tocData"
    and "get_spine be bk = Inr spineData" and "ls (''reading-'' @ str_of bk) = None"
  shows "currentContent (fst (loadBook_original be bk initial_state))
           = currentContent (fst (loadBook rt be bk ls initial_state))
         \<longleftrightarrow> map_option content (js_index tocData 0) = js_index spineData 0"
  using assms
  by (auto simp: loadBook_def loadBook_original_def loadReadingPosition_def load_done_def
      initial_state_def epub_uri_def js_index_def str_of_def Let_def split: option.splits)

theorem default_content_agrees_witness:
  "currentContent (fst (loadBook_original example_backend (Some ''b.epub'') initial_state))
     \<noteq> currentContent (fst (loadBook (example_runtime []) example_backend (Some ''b.epub'')
                              Map.empty initial_state))
   \<and> currentContent
       (fst (loadBook_original (example_backend\<lparr>get_spine := \<lambda>bk. Inr [''OEBPS/ch1.html'']\<rparr>)
               (Some ''b.epub'') initial_state))
     = currentContent
       (fst (loadBook (example_runtime [])
               (example_backend\<lparr>get_spine := \<lambda>bk. Inr [''OEBPS/ch1.html'']\<rparr>)
               (Some ''b.epub'') Map.empty initial_state))"
proof -
  let ?be = "example_backend\<lparr>get_spine := \<lambda>bk. Inr [''OEBPS/ch1.html'']\<rparr>"
  have a: "currentContent (fst (loadBook_original example_backend (Some ''b.epub'') initial_state))
     \<noteq> currentContent (fst (loadBook (example_runtime []) example_backend (Some ''b.epub'')
                              Map.empty initial_state))"
    using default_content_agrees
      [of example_backend "Some ''b.epub''" "''Frankenstein''"
          "[TocItem ''Letter 1'' ''OEBPS/ch1.html'' 1 []]"
          "[''OEBPS/cover.html'', ''OEBPS/ch1.html'']" Map.empty "example_runtime []"]
    by (simp add: example_backend_def js_index_def)
  have b: "currentContent (fst (loadBook_original ?be (Some ''b.epub'') initial_state))
     = currentContent (fst (loadBook (example_runtime []) ?be (Some ''b.epub'')
                              Map.empty initial_state))"
    using default_content_agrees
      [of ?be "Some ''b.epub''" "''Frankenstein''"
          "[TocItem ''Letter 1'' ''OEBPS/ch1.html'' 1 []]"
          "[''OEBPS/ch1.html'']" Map.empty "example_runtime []"]
    by (simp add: example_backend_def js_index_def)
  show ?thesis using a b by simp
qed

section \<open>The shape of a persisted reading position\<close>

lemma save_shape:
  assumes "fx \<in> set (saveReadingPosition rt now bk s)"
  shows "\<exists>b cp. bk = Some b \<and> b \<noteq> [] \<and>
           fx = SetItem (''reading-'' @ b)
                  (JSON_stringify rt
                     (JObject [(''bookKey'', JString b), (''contentPath'', JString cp),
                               (''page'', JNumber (currentPage s)),
                               (''timestamp'', JNumber (Finite (of_int now)))]))"
  using assms
  by (cases bk) (auto simp: saveReadingPosition_def falsy_def str_of_def position_json_def
      split: if_splits)

lemma is_page_index_zero: "is_page_index (Finite 0)"
  by (simp add: is_page_index_def)

lemma floor_three_halves: "\<lfloor>3 / 2 :: rat\<rfloor> = 1"
  by (simp add: floor_eq_iff)

lemma not_page_indices:
  "\<not> is_page_index (Finite (- 1))" "\<not> is_page_index (Finite (3 / 2))" "\<not> is_page_index NaN"
  by (simp_all add: is_page_index_def floor_three_halves)

lemma loadBook_page: "currentPage (fst (loadBook rt be bk ls s)) = currentPage s"
  by (simp add: loadBook_def load_failed_def load_done_def Let_def
      split: sum.splits option.splits)

lemma loadBook_no_write: "SetItem k v \<notin> set (snd (loadBook rt be bk ls s))"
  by (simp add: loadBook_def load_failed_def load_done_def Let_def
      split: sum.splits option.splits)

lemma handle_page:
  assumes "page_reported_ok ev" and "is_page_index (currentPage s)"
  shows "is_page_index (currentPage (fst (handle rt be bk iframe now ev ls s)))"
  using assms
  by (cases ev)
     (auto simp: bookKey_effect_def loadBook_page handlePaginationUpdate_def
        handleNextPage_def handlePreviousPage_def handleTocItemClick_def handleBackClick_def
        is_page_index_zero Let_def split: sum.splits option.splits)

lemma handle_write:
  assumes "SetItem k v \<in> set (snd (handle rt be bk iframe now ev ls s))"
  shows "\<exists>b cp. bk = Some b \<and> b \<noteq> [] \<and> k = ''reading-'' @ b \<and>
           v = JSON_stringify rt
                  (JObject [(''bookKey'', JString b), (''contentPath'', JString cp),
                            (''page'', JNumber (currentPage s)),
                            (''timestamp'', JNumber (Finite (of_int now)))])"
proof (cases ev)
  case (PaginationUpdate pg tot)
  then have "SetItem k v \<in> set (saveReadingPosition rt now bk s)"
    using assms by (simp add: handlePaginationUpdate_def)
  from save_shape [OF this] show ?thesis by auto
next
  case Mount
  then show ?thesis using assms loadBook_no_write
    by (auto simp: bookKey_effect_def split: if_splits)
qed (use assms in \<open>auto simp: handleNextPage_def handlePreviousPage_def handleTocItemClick_def
        handleBackClick_def send_to_iframe_def Let_def split: sum.splits option.splits if_splits\<close>)

lemma run_writes:
  assumes "SetItem k v \<in> set (snd (run rt be bk iframe evs (s, ls)))"
  shows "\<exists>b cp pg t. bk = Some b \<and> b \<noteq> [] \<and> k = ''reading-'' @ b \<and>
           v = JSON_stringify rt
                  (JObject [(''bookKey'', JString b), (''contentPath'', JString cp),
                            (''page'', JNumber pg),
                            (''timestamp'', JNumber (Finite (of_int t)))]) \<and>
           (list_all (\<lambda>e. page_reported_ok (snd e)) evs \<and> is_page_index (currentPage s)
              \<longrightarrow> is_page_index pg)"
  using assms
proof (induction evs arbitrary: s ls)
  case Nil
  then show ?case by simp
next
  case (Cons e evs)
  obtain now ev where e: "e = (now, ev)" by (cases e)
  obtain s' fx where h: "handle rt be bk iframe now ev ls s = (s', fx)"
    by (cases "handle rt be bk iframe now ev ls s")
  obtain w' fxs where r: "run rt be bk iframe evs (s', foldl apply_effect ls fx) = (w', fxs)"
    by (cases "run rt be bk iframe evs (s', foldl apply_effect ls fx)")
  have "SetItem k v \<in> set fx \<or> SetItem k v \<in> set fxs"
    using Cons.prems e h r by simp
  then show ?case
  proof
    assume "SetItem k v \<in> set fx"
    then have "SetItem k v \<in> set (snd (handle rt be bk iframe now ev ls s))"
      using h by simp
    from handle_write [OF this] show ?thesis by blast
  next
    assume "SetItem k v \<in> set fxs"
    then have "SetItem k v \<in> set (snd (run rt be bk iframe evs (s', foldl apply_effect ls fx)))"
      using r by simp
    from Cons.IH [OF this] obtain b cp pg t where
      w: "bk = Some b" "b \<noteq> []" "k = ''reading-'' @ b"
         "v = JSON_stringify rt
                (JObject [(''bookKey'', JString b), (''contentPath'', JString cp),
                          (''page'', JNumber pg),
                          (''timestamp'', JNumber (Finite (of_int t)))])"
         "list_all (\<lambda>e. page_reported_ok (snd e)) evs \<and> is_page_index (currentPage s')
            \<longrightarrow> is_page_index pg"
      by blast
    have "is_page_index pg"
      if a: "list_all (\<lambda>e. page_reported_ok (snd e)) (e # evs)" "is_page_index (currentPage s)"
    proof -
      have "page_reported_ok ev" using a(1) e by simp
      from handle_page [OF this a(2), of rt be bk iframe now ls] h
      have "is_page_index (currentPage s')" by simp
      then show ?thesis using w(5) a(1) by simp
    qed
    then show ?thesis using w(1-4) by blast
  qed
qed

text \<open>
  C3, as the code has it. In every run of the reader from its initial state, every
  write to \<open>localStorage\<close> goes to the key \<open>reading-<bookKey>\<close> and stores the
  serialization of an object with exactly the four fields \<open>bookKey\<close> (a string),
  \<open>contentPath\<close> (a string), \<open>page\<close> (a number) and \<open>timestamp\<close> (an integer), in
  that order. The reader keeps the page numbers the rendered content reports without
  checking them, so the stored page is a non-negative integer provided every page
  number reported to \<open>handlePaginationUpdate\<close> so far was a non-negative integer.
\<close>

theorem persisted_position_shape:
  assumes "SetItem k v \<in> set (snd (run rt be bk iframe evs (initial_state, ls)))"
  shows "\<exists>b cp pg t. bk = Some b \<and> b \<noteq> [] \<and> k = ''reading-'' @ b \<and>
           v = JSON_stringify rt
                  (JObject [(''bookKey'', JString b), (''contentPath'', JString cp),
                            (''page'', JNumber pg),
                            (''timestamp'', JNumber (Finite (of_int t)))]) \<and>
           (list_all (\<lambda>e. page_reported_ok (snd e)) evs \<longrightarrow> is_page_index pg)"
  using run_writes [OF assms] by (simp add: initial_state_def is_page_index_zero)

theorem persisted_position_shape_witness:
  "\<exists>b cp pg t. Some ''b.epub'' = Some b \<and> b \<noteq> [] \<and> ''reading-b.epub'' = ''reading-'' @ b \<and>
     json_text (JObject [(''bookKey'', JString ''b.epub''),
                         (''contentPath'', JString ''OEBPS/cover.html''),
                         (''page'', JNumber (Finite 1)),
                         (''timestamp'', JNumber (Finite 1702))])
     = JSON_stringify (example_runtime [])
         (JObject [(''bookKey'', JString b), (''contentPath'', JString cp),
                   (''page'', JNumber pg), (''timestamp'', JNumber (Finite (of_int t)))]) \<and>
     is_page_index pg"
proof -
  let ?evs = "[(1700::int, Mount), (1701, PaginationUpdate (Finite 1) (Finite 5)),
               (1702, PaginationUpdate (Finite 2) (Finite 5))]"
  have mem: "SetItem ''reading-b.epub''
        (json_text (JObject [(''bookKey'', JString ''b.epub''),
                             (''contentPath'', JString ''OEBPS/cover.html''),
                             (''page'', JNumber (Finite 1)),
                             (''timestamp'', JNumber (Finite 1702))]))
      \<in> set (snd (run (example_runtime []) example_backend (Some ''b.epub'') True ?evs
                    (initial_state, Map.empty)))"
    by (simp add: bookKey_effect_def falsy_def loadBook_def loadReadingPosition_def
        example_backend_def example_runtime_def load_done_def js_index_def str_of_def
        epub_uri_def handlePaginationUpdate_def saveReadingPosition_def position_json_def
        initial_state_def Let_def)
  have ok: "list_all (\<lambda>e. page_reported_ok (snd e)) ?evs"
    by (simp add: is_page_index_def)
  from persisted_position_shape [OF mem] ok show ?thesis by blast
qed

text \<open>
  The claim as written asks for a non-negative integer page in every persisted
  position. A frame that reports the pages \<open>-1\<close>, \<open>1.5\<close> and \<open>NaN\<close> makes the reader
  persist each of them.
\<close>

theorem persisted_page_unchecked:
  "snd (run (example_runtime []) example_backend (Some ''b.epub'') True
          [(1700, Mount),
           (1701, PaginationUpdate (Finite (- 1)) (Finite 5)),
           (1702, PaginationUpdate (Finite (3 / 2)) (Finite 5)),
           (1703, PaginationUpdate NaN (Finite 5)),
           (1704, PaginationUpdate (Finite 0) (Finite 5))]
          (initial_state, Map.empty))
   = [SetItem ''reading-b.epub''
        (json_text (JObject [(''bookKey'', JString ''b.epub''),
                             (''contentPath'', JString ''OEBPS/cover.html''),
                             (''page'', JNumber (Finite 0)),
                             (''timestamp'', JNumber (Finite 1701))])),
      SetItem ''reading-b.epub''
        (json_text (JObject [(''bookKey'', JString ''b.epub''),
                             (''contentPath'', JString ''OEBPS/cover.html''),
                             (''page'', JNumber (Finite (- 1))),
                             (''timestamp'', JNumber (Finite 1702))])),
      SetItem ''reading-b.epub''
        (json_text (JObject [(''bookKey'', JString ''b.epub''),
                             (''contentPath'', JString ''OEBPS/cover.html''),
                             (''page'', JNumber (Finite (3 / 2))),
                             (''timestamp'', JNumber (Finite 1703))])),
      SetItem ''reading-b.epub''
        (json_text (JObject [(''bookKey'', JString ''b.epub''),
                             (''contentPath'', JString ''OEBPS/cover.html''),
                             (''page'', JNumber NaN),
                             (''timestamp'', JNumber (Finite 1704))]))]
   \<and> \<not> is_page_index (Finite (- 1)) \<and> \<not> is_page_index (Finite (3 / 2)) \<and> \<not> is_page_index NaN"
  by (simp add: bookKey_effect_def falsy_def loadBook_def loadReadingPosition_def
      example_backend_def example_runtime_def load_done_def js_index_def str_of_def epub_uri_def
      handlePaginationUpdate_def saveReadingPosition_def position_json_def initial_state_def
      not_page_indices Let_def)

section \<open>Looking a spine entry up by its own path\<close>







section \<open>The order of the table of contents\<close>

lemma play_order_order_item: "play_order (order_item x) = play_order x"
  by (cases x) simp

lemma item_ordered_order_item: "item_ordered (order_item x)"
proof (induction x)
  case (TocItem l c p ch)
  have "sorted (map play_order (sort_key play_order (map order_item ch)))"
    by (rule sorted_sort_key)
  moreover have "list_all item_ordered (sort_key play_order (map order_item ch))"
    using TocItem.IH by (simp add: list_all_iff)
  ultimately show ?case by simp
qed

lemma order_toc_ordered: "toc_ordered (order_toc xs)"
  unfolding toc_ordered_def order_toc_def
  by (simp add: list_all_iff item_ordered_order_item)

lemma order_ties:
  "filter (\<lambda>y. play_order y = k) (sort_key play_order (map order_item xs))
     = map order_item (filter (\<lambda>y. play_order y = k) xs)"
proof -
  have "filter (\<lambda>y. play_order y = k) (sort_key play_order (map order_item xs))
          = filter (\<lambda>y. play_order y = k) (map order_item xs)"
    by (rule sort_key_stable)
  also have "\<dots> = map order_item (filter (\<lambda>y. play_order y = k) xs)"
    by (simp add: filter_map comp_def play_order_order_item)
  finally show ?thesis .
qed

text \<open>
  C5. For every loaded document, every level of \<open>tocOf doc\<close> is non-decreasing in
  \<open>play_order\<close>, and ties keep their declaration order: at the top level and below
  every node, the entries with a given \<open>play_order\<close> are the declared ones with that
  \<open>play_order\<close>, in the order they were declared.
\<close>

theorem toc_levels_ordered:
  assumes "load fileName (Inr pkg) = Inr doc"
  shows "toc_ordered (tocOf doc)
       \<and> (\<forall>k. filter (\<lambda>y. play_order y = k) (tocOf doc)
                = map order_item (filter (\<lambda>y. play_order y = k) (pkg_nav pkg)))
       \<and> (\<forall>x k. filter (\<lambda>y. play_order y = k) (children (order_item x))
                = map order_item (filter (\<lambda>y. play_order y = k) (children x)))"
proof -
  have t: "tocOf doc = order_toc (pkg_nav pkg)"
    using assms by (auto simp: load_def tocOf_def split: if_splits)
  have c: "children (order_item x) = sort_key play_order (map order_item (children x))" for x
    by (cases x) simp
  show ?thesis
    unfolding t c using order_toc_ordered order_ties by (simp add: order_toc_def)
qed

lemma load_shuffled:
  "load ''shuffled.epub'' (Inr shuffled_nav) =
     Inr \<lparr>doc_bookKey = ''shuffled.epub'', doc_title = ''shuffled'',
          doc_manifest = map_of (pkg_manifest shuffled_nav), doc_spine = [''c.html''],
          doc_toc = [TocItem ''Part one'' ''c.html#p1'' 1 [],
                     TocItem ''Part two'' ''c.html#p2'' 2
                       [TocItem ''2.1'' ''c.html#s21'' 4 [], TocItem ''2.2'' ''c.html#s22'' 5 []],
                     TocItem ''Part two, again'' ''c.html#p2b'' 2 []]\<rparr>"
  by (simp add: load_def shuffled_nav_def order_toc_def file_stem_def)

theorem toc_levels_ordered_witness:
  "\<exists>doc. load ''shuffled.epub'' (Inr shuffled_nav) = Inr doc
     \<and> toc_ordered (tocOf doc)
     \<and> map label (tocOf doc) = [''Part one'', ''Part two'', ''Part two, again'']
     \<and> map label (filter (\<lambda>y. play_order y = 2) (tocOf doc)) = [''Part two'', ''Part two, again'']"
proof -
  note t = toc_levels_ordered [OF load_shuffled]
  from t have "toc_ordered (tocOf
     \<lparr>doc_bookKey = ''shuffled.epub'', doc_title = ''shuffled'',
      doc_manifest = map_of (pkg_manifest shuffled_nav), doc_spine = [''c.html''],
      doc_toc = [TocItem ''Part one'' ''c.html#p1'' 1 [],
                 TocItem ''Part two'' ''c.html#p2'' 2
                   [TocItem ''2.1'' ''c.html#s21'' 4 [], TocItem ''2.2'' ''c.html#s22'' 5 []],
                 TocItem ''Part two, again'' ''c.html#p2b'' 2 []]\<rparr>)"
    by blast
  then show ?thesis using load_shuffled by (simp add: tocOf_def)
qed

section \<open>Links clicked in the rendered content\<close>

lemma is_scheme_char_not_colon: "is_scheme_char c \<Longrightarrow> c \<noteq> CHR '':''"
  by (auto simp: is_scheme_char_def is_alpha_def Let_def)

lemma is_alpha_not_hash: "is_alpha c \<Longrightarrow> c \<noteq> CHR ''#''"
  by (auto simp: is_alpha_def Let_def)

lemma scheme_of_absolute:
  assumes "is_scheme sch"
  shows "scheme_of (sch @ '':'' @ rest) = Some sch"
proof -
  have "\<forall>c\<in>set sch. c \<noteq> CHR '':''"
    using assms is_scheme_char_not_colon by (auto simp: is_scheme_def list_all_iff)
  then have "takeWhile (\<lambda>c. c \<noteq> CHR '':'') (sch @ '':'' @ rest) = sch"
    by (simp add: takeWhile_append2)
  then show ?thesis using assms by (simp add: scheme_of_def)
qed

text \<open>
  C6. The click listener classifies by scheme. A reference \<open>sch:rest\<close> whose scheme
  is not the custom scheme prevents the default navigation and posts exactly one
  message \<open>{type: "epub-external-link", url: href}\<close> with the original reference,
  whatever follows the colon (so whatever the host), and sets no location. A relative
  path (no scheme, not a bare fragment) prevents the default, sets the location to the
  target and posts nothing.
\<close>

theorem link_classification_by_scheme:
  "(is_scheme sch \<and> sch \<noteq> ''epub'' \<longrightarrow>
      on_click (sch @ '':'' @ rest) =
        \<lparr>default_prevented = True, location_set = None,
         posted = [JObject [(''type'', JString ''epub-external-link''),
                            (''url'', JString (sch @ '':'' @ rest))]]\<rparr>)
   \<and> (scheme_of href = None \<and> \<not> prefix ''#'' href \<longrightarrow>
      on_click href = \<lparr>default_prevented = True, location_set = Some href, posted = []\<rparr>)"
proof -
  have "on_click (sch @ '':'' @ rest) =
        \<lparr>default_prevented = True, location_set = None,
         posted = [JObject [(''type'', JString ''epub-external-link''),
                            (''url'', JString (sch @ '':'' @ rest))]]\<rparr>"
    if h: "is_scheme sch" "sch \<noteq> ''epub''"
  proof -
    obtain a as where s: "sch = a # as" "is_alpha a"
      using h(1) by (cases sch) (auto simp: is_scheme_def)
    then have "\<not> prefix ''#'' (sch @ '':'' @ rest)"
      using is_alpha_not_hash by auto
    then show ?thesis
      using scheme_of_absolute [OF h(1), of rest] h(2) by (simp add: on_click_def classify_def)
  qed
  moreover have "on_click href = \<lparr>default_prevented = True, location_set = Some href, posted = []\<rparr>"
    if "scheme_of href = None" "\<not> prefix ''#'' href"
    using that by (simp add: on_click_def classify_def)
  ultimately show ?thesis by blast
qed

theorem link_classification_by_scheme_witness:
  "on_click ''mailto:test@example.com'' =
     \<lparr>default_prevented = True, location_set = None,
      posted = [JObject [(''type'', JString ''epub-external-link''),
                         (''url'', JString ''mailto:test@example.com'')]]\<rparr>
   \<and> on_click ''chapter2.html'' =
     \<lparr>default_prevented = True, location_set = Some ''chapter2.html'', posted = []\<rparr>
   \<and> on_click ''https://frankenstein.epub/OEBPS/ch1.html'' =
     \<lparr>default_prevented = True, location_set = None,
      posted = [JObject [(''type'', JString ''epub-external-link''),
                         (''url'', JString ''https://frankenstein.epub/OEBPS/ch1.html'')]]\<rparr>"
proof -
  have c: "is_scheme ''https''" "''https'' \<noteq> ''epub''"
    by (simp_all add: is_scheme_def is_scheme_char_def is_alpha_def)
  have a: "is_scheme ''mailto''" "''mailto'' \<noteq> ''epub''"
    by (simp_all add: is_scheme_def is_scheme_char_def is_alpha_def)
  have b: "scheme_of ''chapter2.html'' = None" "\<not> prefix ''#'' ''chapter2.html''"
    by (simp_all add: scheme_of_def)
  show ?thesis
    using link_classification_by_scheme [of "''mailto''" "''test@example.com''" "''chapter2.html''"]
      link_classification_by_scheme
        [of "''https''" "''//frankenstein.epub/OEBPS/ch1.html''" "''chapter2.html''"] a b c
    by simp
qed

section \<open>Scanning a directory with corrupt archives\<close>

lemma parse_cases: "is_epub (fst e) \<Longrightarrow> parseable e \<or> unparseable e"
  by (auto simp: parseable_def unparseable_def)

lemma scan_index:
  "fst (scan entries (idx, logged)) k = Some d \<Longrightarrow>
     idx k = Some d \<or> (\<exists>e\<in>set entries. parseable e \<and> fst e = k \<and> doc_bookKey d = k)"
proof (induction entries arbitrary: idx logged)
  case Nil
  then show ?case by simp
next
  case (Cons e entries)
  obtain name parsed where e: "e = (name, parsed)" by (cases e)
  show ?case
  proof (cases "is_epub name")
    case False
    then show ?thesis using Cons e by auto
  next
    case True
    show ?thesis
    proof (cases "load name parsed")
      case (Inl err)
      then show ?thesis using Cons e True by auto
    next
      case (Inr doc)
      have key: "doc_bookKey doc = name"
        using Inr by (auto simp: load_def split: sum.splits if_splits)
      have p: "parseable e" using True Inr e by (simp add: parseable_def)
      from Cons.prems have "fst (scan entries (idx(name \<mapsto> doc), logged)) k = Some d"
        using e True Inr by simp
      from Cons.IH [OF this] show ?thesis using key p e by (auto split: if_splits)
    qed
  qed
qed

lemma scan_dom:
  "dom (fst (scan entries (idx, logged))) = dom idx \<union> fst ` set (filter parseable entries)"
proof (induction entries arbitrary: idx logged)
  case Nil
  then show ?case by simp
next
  case (Cons e entries)
  obtain name parsed where e: "e = (name, parsed)" by (cases e)
  show ?case
    using Cons.IH e
    by (cases "load name parsed") (auto simp: parseable_def)
qed

lemma scan_logged:
  "map fst (snd (scan entries (idx, logged)))
     = map fst logged @ map fst (filter unparseable entries)"
proof (induction entries arbitrary: idx logged)
  case Nil
  then show ?case by simp
next
  case (Cons e entries)
  obtain name parsed where e: "e = (name, parsed)" by (cases e)
  show ?case
    using Cons.IH e
    by (cases "load name parsed") (auto simp: unparseable_def)
qed

text \<open>
  C7. For a readable directory (its entries have distinct file names) \<open>loadAll\<close>
  returns an index; no file's failure aborts the scan. The index has exactly as many
  entries as the directory has EPUB files that load; the files logged are exactly the
  EPUB files that fail to load, in directory order; and such a file is under no key
  of the index, nor is it the \<open>bookKey\<close> of any document in it.
\<close>

theorem loadAll_skips_corrupt_files:
  assumes "fs directoryPath = Some entries" and "distinct (map fst entries)"
  shows "\<exists>idx logged. loadAll fs directoryPath = Inr (idx, logged)
           \<and> card (dom idx) = length (filter parseable entries)
           \<and> map fst logged = map fst (filter unparseable entries)
           \<and> (\<forall>e\<in>set entries. unparseable e \<longrightarrow>
                idx (fst e) = None \<and> (\<forall>d\<in>ran idx. doc_bookKey d \<noteq> fst e))"
proof -
  obtain idx logged where s: "scan entries (Map.empty, []) = (idx, logged)"
    by (cases "scan entries (Map.empty, [])")
  have l: "loadAll fs directoryPath = Inr (idx, logged)"
    using assms(1) s by (simp add: loadAll_def)
  have d: "dom idx = fst ` set (filter parseable entries)"
    using scan_dom [of entries Map.empty "[]"] s by simp
  have "distinct (map fst (filter parseable entries))"
    using assms(2) by (simp add: distinct_map_filter)
  then have "card (fst ` set (filter parseable entries)) = length (filter parseable entries)"
    using distinct_card [of "map fst (filter parseable entries)"] by simp
  then have c: "card (dom idx) = length (filter parseable entries)" using d by simp
  have g: "map fst logged = map fst (filter unparseable entries)"
    using scan_logged [of entries Map.empty "[]"] s by simp
  have u: "idx (fst e) = None \<and> (\<forall>d\<in>ran idx. doc_bookKey d \<noteq> fst e)"
    if e: "e \<in> set entries" "unparseable e" for e
  proof -
    have np: "\<not> parseable e'" if "e' \<in> set entries" "fst e' = fst e" for e'
    proof -
      have "e' = e" using assms(2) that e(1) by (meson distinct_map inj_onD)
      then show ?thesis using e(2) by (auto simp: parseable_def unparseable_def)
    qed
    have "fst e \<notin> dom idx" using d np by auto
    moreover have "doc_bookKey x \<noteq> fst e" if x: "x \<in> ran idx" for x
    proof -
      obtain k where k: "idx k = Some x" using x by (auto simp: ran_def)
      then have "fst (scan entries (Map.empty, [])) k = Some x" using s by simp
      from scan_index [OF this] obtain e' where
        e': "e' \<in> set entries" "parseable e'" "fst e' = k" "doc_bookKey x = k" by auto
      show ?thesis
      proof
        assume "doc_bookKey x = fst e"
        then have "fst e' = fst e" using e'(3,4) by simp
        from np [OF e'(1) this] e'(2) show False by simp
      qed
    qed
    ultimately show ?thesis by auto
  qed
  show ?thesis using l c g u by blast
qed

theorem loadAll_skips_corrupt_files_witness:
  "\<exists>idx logged. loadAll [''/books'' \<mapsto> example_directory] ''/books'' = Inr (idx, logged)
     \<and> card (dom idx) = 2
     \<and> map fst logged = [''broken.epub'']
     \<and> idx ''broken.epub'' = None"
proof -
  have d: "distinct (map fst example_directory)"
    by (simp add: example_directory_def)
  have f: "[''/books'' \<mapsto> example_directory] ''/books'' = Some example_directory"
    by simp
  have ld: "\<not> isl (load ''frankenstein.epub'' (Inr two_chapters))"
    "\<not> isl (load ''shuffled.epub'' (Inr shuffled_nav))"
    "isl (load ''broken.epub'' (Inl MalformedContainer))"
    by (simp_all add: load_def two_chapters_def shuffled_nav_def)
  have ep: "is_epub ''frankenstein.epub''" "is_epub ''shuffled.epub''" "is_epub ''broken.epub''"
    "\<not> is_epub ''notes.txt''"
    by (simp_all add: is_epub_def suffix_def)
  have p: "filter parseable example_directory
      = [(''frankenstein.epub'', Inr two_chapters), (''shuffled.epub'', Inr shuffled_nav)]"
    using ld ep by (simp add: example_directory_def parseable_def)
  have u: "filter unparseable example_directory = [(''broken.epub'', Inl MalformedContainer)]"
    using ld ep by (simp add: example_directory_def unparseable_def)
  have m: "(''broken.epub'', Inl MalformedContainer) \<in> set example_directory"
    by (simp add: example_directory_def)
  have b: "unparseable (''broken.epub'', Inl MalformedContainer)"
    using ld ep by (simp add: unparseable_def)
  from loadAll_skips_corrupt_files
    [of "[''/books'' \<mapsto> example_directory]" "''/books''" example_directory, OF f d]
  obtain idx logged where
    r: "loadAll [''/books'' \<mapsto> example_directory] ''/books'' = Inr (idx, logged)"
       "card (dom idx) = length (filter parseable example_directory)"
       "map fst logged = map fst (filter unparseable example_directory)"
       "\<forall>e\<in>set example_directory. unparseable e \<longrightarrow>
          idx (fst e) = None \<and> (\<forall>d\<in>ran idx. doc_bookKey d \<noteq> fst e)"
    by blast
  from r(4) m b have "idx ''broken.epub'' = None" by fastforce
  then show ?thesis using r(1-3) p u by simp
qed

end
